theory Spec2Isabelle
  imports Complex_Main "HOL-Library.Multiset"
begin

section \<open>Floating-point values\<close>

text \<open>
  A Python float is a binary64 value: a finite number, one of the two infinities, or
  NaN. A finite value is carried as the real number it stands for (the two zeros are
  not told apart), and every operation that produces a float rounds its exact result to
  binary64. pandas stores a missing cell as NaN, so NaN is also the "missing" value of
  the pipeline.
\<close>

datatype pyfloat = Fin real | PInf | NInf | NaN

subsection \<open>Rounding to binary64\<close>

text \<open>
  The number of binary digits of a natural number: \<open>bit_length_from k n\<close> counts on from
  \<open>k\<close>.
\<close>

fun bit_length_from :: "nat \<Rightarrow> nat \<Rightarrow> nat" where
  "bit_length_from k n = (if n = 0 then k else bit_length_from (k + 1) (n div 2))"

declare bit_length_from.simps [simp del]

definition bit_length :: "nat \<Rightarrow> nat" where
  "bit_length n = bit_length_from 0 n"

text \<open>For \<open>a > 0\<close>, the exponent \<open>e\<close> with \<open>2 ^ e \<le> a < 2 ^ (e + 1)\<close>.\<close>

definition floor_log2 :: "real \<Rightarrow> int" where
  "floor_log2 a =
     (if 1 \<le> a then int (bit_length (nat \<lfloor>a\<rfloor>)) - 1
      else - int (bit_length (nat (\<lceil>1 / a\<rceil> - 1))))"

definition pow2 :: "int \<Rightarrow> real" where
  "pow2 e = (if 0 \<le> e then 2 ^ nat e else 1 / 2 ^ nat (- e))"

text \<open>The nearest integer, and the even one of the two when they are equally near.\<close>

definition round_half_even :: "real \<Rightarrow> int" where
  "round_half_even r =
     (let f = \<lfloor>r\<rfloor>; d = r - of_int f
      in if d < 1 / 2 then f else if 1 / 2 < d then f + 1 else if even f then f else f + 1)"

text \<open>
  Round to nearest, ties to even, with 53 significant bits, exponents from -1022 to
  1023, gradual underflow below and overflow to infinity above.
\<close>

definition round_binary64 :: "real \<Rightarrow> pyfloat" where
  "round_binary64 x =
     (if x = 0 then Fin 0
      else
        (let a = \<bar>x\<bar>;
             q = max (floor_log2 a) (- 1022) - 52;
             y = of_int (round_half_even (a / pow2 q)) * pow2 q
         in if pow2 1024 \<le> y then (if 0 < x then PInf else NInf)
            else Fin (if 0 < x then y else - y)))"

subsection \<open>Operations\<close>

fun isnan :: "pyfloat \<Rightarrow> bool" where
  "isnan NaN = True"
| "isnan _ = False"

text \<open>The comparison \<open>a < b\<close> of two floats: every comparison with NaN is false.\<close>

fun flt :: "pyfloat \<Rightarrow> pyfloat \<Rightarrow> bool" where
  "flt (Fin a) (Fin b) = (a < b)"
| "flt (Fin a) PInf = True"
| "flt NInf (Fin b) = True"
| "flt NInf PInf = True"
| "flt _ _ = False"

definition fgt :: "pyfloat \<Rightarrow> pyfloat \<Rightarrow> bool" where
  "fgt a b = flt b a"

text \<open>
  Multiplication by a positive finite constant, as in \<open>float(num_str) * 1000.0\<close>: the
  exact product, rounded.
\<close>

fun fscale :: "pyfloat \<Rightarrow> real \<Rightarrow> pyfloat" where
  "fscale (Fin a) k = round_binary64 (a * k)"
| "fscale x k = x"

text \<open>
  Subtraction: the exact difference, rounded; NaN propagates, and the difference of
  equal infinities is NaN.
\<close>

fun fsub :: "pyfloat \<Rightarrow> pyfloat \<Rightarrow> pyfloat" where
  "fsub (Fin a) (Fin b) = round_binary64 (a - b)"
| "fsub NaN _ = NaN"
| "fsub _ NaN = NaN"
| "fsub PInf PInf = NaN"
| "fsub NInf NInf = NaN"
| "fsub PInf _ = PInf"
| "fsub NInf _ = NInf"
| "fsub (Fin a) PInf = NInf"
| "fsub (Fin a) NInf = PInf"

section \<open>Strings and the built-in conversions\<close>

text \<open>
  A Python \<open>str\<close> is modelled as a \<open>string\<close>, one \<open>char\<close> per code point, which
  covers the code points below 256. The exceptions the pipeline can meet: \<open>ValueError\<close>
  from a text that is not a number and from a sample that is too short,
  \<open>OverflowError\<close> from an integer outside the 64-bit range, \<open>KeyError\<close> from a frame
  that lacks a column.
\<close>

datatype pyerror = ValueError | OverflowError | KeyError

text \<open>\<open>str.isspace\<close> on one code point below 256; \<open>str.strip()\<close> removes these.\<close>

definition is_space :: "char \<Rightarrow> bool" where
  "is_space c = (let n = (of_char c :: nat) in
     (9 \<le> n \<and> n \<le> 13) \<or> (28 \<le> n \<and> n \<le> 32) \<or> n = 133 \<or> n = 160)"

definition strip :: "string \<Rightarrow> string" where
  "strip s = rev (dropWhile is_space (rev (dropWhile is_space s)))"

text \<open>\<open>s.endswith(("k", "K"))\<close>, \<open>s[:-1]\<close> and \<open>s.replace(",", "")\<close>.\<close>

definition endswith_k :: "string \<Rightarrow> bool" where
  "endswith_k s = (s \<noteq> [] \<and> (last s = CHR ''k'' \<or> last s = CHR ''K''))"

definition drop_last :: "string \<Rightarrow> string" where
  "drop_last s = butlast s"

definition remove_commas :: "string \<Rightarrow> string" where
  "remove_commas s = filter (\<lambda>c. c \<noteq> CHR '','') s"

subsection \<open>The built-in \<open>float(str)\<close>\<close>

definition is_digit :: "char \<Rightarrow> bool" where
  "is_digit c = (let n = (of_char c :: nat) in 48 \<le> n \<and> n \<le> 57)"

definition digit_val :: "char \<Rightarrow> nat" where
  "digit_val c = of_char c - 48"

definition digits_val :: "string \<Rightarrow> nat" where
  "digits_val ds = foldl (\<lambda>acc c. 10 * acc + digit_val c) 0 ds"

text \<open>
  Underscores may only stand between two digits; they are checked on the whole
  argument and removed before the number is read. \<open>prev\<close> is the character before
  the current one, \<open>None\<close> at the start.
\<close>

fun strip_underscores :: "char option \<Rightarrow> string \<Rightarrow> string option" where
  "strip_underscores prev [] = (if prev = Some (CHR ''_'') then None else Some [])"
| "strip_underscores prev (c # cs) =
     (if c = CHR ''_'' then
        (case prev of
           None \<Rightarrow> None
         | Some p \<Rightarrow> if is_digit p then strip_underscores (Some c) cs else None)
      else if prev = Some (CHR ''_'') \<and> \<not> is_digit c then None
      else map_option ((#) c) (strip_underscores (Some c) cs))"

text \<open>
  The blanks that \<open>float\<close> itself skips at both ends: the ASCII white space, and the
  two other spaces below 256, which it first turns into blanks.
\<close>

definition is_float_space :: "char \<Rightarrow> bool" where
  "is_float_space c = (let n = (of_char c :: nat) in
     (9 \<le> n \<and> n \<le> 13) \<or> n = 32 \<or> n = 133 \<or> n = 160)"

definition float_strip :: "string \<Rightarrow> string" where
  "float_strip s = rev (dropWhile is_float_space (rev (dropWhile is_float_space s)))"

text \<open>An optional sign: the factor it stands for and the rest of the text.\<close>

fun read_sign :: "string \<Rightarrow> int \<times> string" where
  "read_sign [] = (1, [])"
| "read_sign (c # cs) =
     (if c = CHR ''-'' then (-1, cs) else if c = CHR ''+'' then (1, cs) else (1, c # cs))"

text \<open>
  An exponent part \<open>e\<close> or \<open>E\<close>, an optional sign and at least one digit, reaching to
  the end of the text; the empty text is the exponent 0.
\<close>

definition read_exponent :: "string \<Rightarrow> int option" where
  "read_exponent s =
     (case s of
        [] \<Rightarrow> Some 0
      | c # cs \<Rightarrow>
          if c = CHR ''e'' \<or> c = CHR ''E'' then
            (case read_sign cs of (sg, ds) \<Rightarrow>
               if ds \<noteq> [] \<and> list_all is_digit ds then Some (sg * int (digits_val ds)) else None)
          else None)"

definition pow10 :: "int \<Rightarrow> real" where
  "pow10 e = (if 0 \<le> e then 10 ^ nat e else 1 / 10 ^ nat (- e))"

text \<open>
  An unsigned decimal number: digits, an optional point with digits, at least one digit
  in all, and an optional exponent. The result is the exact value of the text.
\<close>

definition read_number :: "string \<Rightarrow> real option" where
  "read_number s =
     (let ip = takeWhile is_digit s; r1 = dropWhile is_digit s;
          has_point = (r1 \<noteq> [] \<and> hd r1 = CHR ''.'');
          r2 = (if has_point then tl r1 else r1);
          fp = (if has_point then takeWhile is_digit r2 else []);
          r3 = (if has_point then dropWhile is_digit r2 else r2)
      in if ip = [] \<and> fp = [] then None
         else (case read_exponent r3 of
                 None \<Rightarrow> None
               | Some e \<Rightarrow> Some (real (digits_val (ip @ fp)) * pow10 (e - int (length fp)))))"

definition lower :: "char \<Rightarrow> char" where
  "lower c = (let n = (of_char c :: nat) in if 65 \<le> n \<and> n \<le> 90 then char_of (n + 32) else c)"

text \<open>The words \<open>inf\<close>, \<open>infinity\<close> and \<open>nan\<close>, in any case, after the sign.\<close>

definition read_inf_nan :: "int \<Rightarrow> string \<Rightarrow> pyfloat option" where
  "read_inf_nan sg s =
     (let w = map lower s in
      if w = ''inf'' \<or> w = ''infinity'' then Some (if sg < 0 then NInf else PInf)
      else if w = ''nan'' then Some NaN
      else None)"

definition py_float :: "string \<Rightarrow> pyerror + pyfloat" where
  "py_float s =
     (case strip_underscores None s of
        None \<Rightarrow> Inl ValueError
      | Some t \<Rightarrow>
          (case read_sign (float_strip t) of (sg, body) \<Rightarrow>
             (case read_number body of
                Some x \<Rightarrow> Inr (round_binary64 (real_of_int sg * x))
              | None \<Rightarrow>
                  (case read_inf_nan sg body of
                     Some v \<Rightarrow> Inr v
                   | None \<Rightarrow> Inl ValueError))))"

section \<open>DataTransformer\<close>

subsection \<open>\<open>clean_gdp_cell\<close>\<close>

text \<open>
  A raw GDP cell is absent (\<open>None\<close>, for which \<open>pd.isna\<close> holds) or a text. Each
  \<open>try\<close> block is the case distinction on the result of \<open>py_float\<close>, and the function
  returns \<open>pyerror + pyfloat\<close> so that an exception that escaped would show as \<open>Inl\<close>:
  \<open>except ValueError\<close> catches that exception and lets any other pass.
\<close>

definition clean_gdp_cell :: "string option \<Rightarrow> pyerror + pyfloat" where
  "clean_gdp_cell val =
     (case val of
        None \<Rightarrow> Inr NaN
      | Some v \<Rightarrow>
          (let s = strip v in
           if endswith_k s then
             (let num_str = strip (remove_commas (drop_last s)) in
              case py_float num_str of
                Inr x \<Rightarrow> Inr (fscale x 1000)
              | Inl ValueError \<Rightarrow> Inr NaN
              | Inl e \<Rightarrow> Inl e)
           else
             (let num_str = strip (remove_commas s) in
              case py_float num_str of
                Inr x \<Rightarrow> Inr x
              | Inl ValueError \<Rightarrow> Inr NaN
              | Inl e \<Rightarrow> Inl e)))"

text \<open>The text that \<open>clean_gdp_cell\<close> hands to \<open>float\<close> for a cell \<open>v\<close>.\<close>

definition gdp_num_str :: "string \<Rightarrow> string" where
  "gdp_num_str v =
     (let s = strip v in
      if endswith_k s then strip (remove_commas (drop_last s)) else strip (remove_commas s))"

subsection \<open>The built-in \<open>int(str)\<close>\<close>

text \<open>
  \<open>int\<close> on a text: blanks at both ends, an optional sign, and decimal digits with
  single underscores between them. A Python integer has no bound.
\<close>

definition py_int :: "string \<Rightarrow> pyerror + int" where
  "py_int s =
     (case strip_underscores None s of
        None \<Rightarrow> Inl ValueError
      | Some t \<Rightarrow>
          (case read_sign (float_strip t) of (sg, ds) \<Rightarrow>
             if ds \<noteq> [] \<and> list_all is_digit ds then Inr (sg * int (digits_val ds))
             else Inl ValueError))"

text \<open>
  \<open>astype(int)\<close> on the column of year labels applies \<open>int\<close> to each label and stores
  the result as a 64-bit integer, which fails on a value out of that range.
\<close>

definition astype_int64 :: "string \<Rightarrow> pyerror + int" where
  "astype_int64 lbl =
     (case py_int lbl of
        Inl e \<Rightarrow> Inl e
      | Inr y \<Rightarrow> if - (2 ^ 63) \<le> y \<and> y < 2 ^ 63 then Inr y else Inl OverflowError)"

subsection \<open>Tables\<close>

text \<open>
  A wide table is stored by columns, as a DataFrame is: the \<open>country\<close> column and, for
  each further column, its label and its cells. In a DataFrame every column has as many
  cells as there are rows.
\<close>

datatype 'c wide_table = WideTable (country_col: "string list") (year_cols: "(string \<times> 'c list) list")

definition wf_wide :: "'c wide_table \<Rightarrow> bool" where
  "wf_wide t = list_all (\<lambda>(lbl, cells). length cells = length (country_col t)) (year_cols t)"

text \<open>
  The long tables \<open>[country, year, life_expectancy]\<close> and \<open>[country, year, gdp_per_capita]\<close>
  share one row type, with the value in \<open>long_value\<close>; the merged table has both values.
\<close>

record keyed =
  country :: string
  year :: int

record long_record = keyed +
  long_value :: pyfloat

record merged_record = keyed +
  life_expectancy :: pyfloat
  gdp_per_capita :: pyfloat

definition key_of :: "'a keyed_scheme \<Rightarrow> string \<times> int" where
  "key_of r = (country r, year r)"

text \<open>
  \<open>DataFrame.melt(id_vars="country", var_name="year", value_name=...)\<close>: one row per
  cell, the value columns one after the other, each in row order.
\<close>

definition melt :: "'c wide_table \<Rightarrow> (string \<times> string \<times> 'c) list" where
  "melt t = concat (map (\<lambda>(lbl, cells). map (\<lambda>(c, v). (c, lbl, v)) (zip (country_col t) cells))
                        (year_cols t))"

text \<open>Applying a function that may raise to every row: the first exception ends the call.\<close>

fun traverse :: "('a \<Rightarrow> pyerror + 'b) \<Rightarrow> 'a list \<Rightarrow> pyerror + 'b list" where
  "traverse f [] = Inr []"
| "traverse f (x # xs) =
     (case f x of
        Inl e \<Rightarrow> Inl e
      | Inr y \<Rightarrow> (case traverse f xs of Inl e \<Rightarrow> Inl e | Inr ys \<Rightarrow> Inr (y # ys)))"

text \<open>\<open>df["year"] = df["year"].astype(int)\<close> on the melted rows.\<close>

definition year_astype_int :: "(string \<times> string \<times> 'c) list \<Rightarrow> pyerror + (string \<times> int \<times> 'c) list" where
  "year_astype_int rows =
     traverse (\<lambda>(c, lbl, v). case astype_int64 lbl of Inl e \<Rightarrow> Inl e | Inr y \<Rightarrow> Inr (c, y, v)) rows"

subsection \<open>\<open>melt_life_expectancy\<close>\<close>

text \<open>A life-expectancy cell is a float, NaN when the cell is missing.\<close>

definition melt_life_expectancy :: "pyfloat wide_table \<Rightarrow> pyerror + long_record list" where
  "melt_life_expectancy life_df =
     (case year_astype_int (melt life_df) of
        Inl e \<Rightarrow> Inl e
      | Inr life_long \<Rightarrow>
          Inr (map (\<lambda>(c, y, v). \<lparr>country = c, year = y, long_value = v\<rparr>)
                 (filter (\<lambda>(c, y, v). \<not> isnan v) life_long)))"

subsection \<open>\<open>melt_gdp_per_capita\<close>\<close>

definition melt_gdp_per_capita :: "string option wide_table \<Rightarrow> pyerror + long_record list" where
  "melt_gdp_per_capita gdp_df =
     (case year_astype_int (melt gdp_df) of
        Inl e \<Rightarrow> Inl e
      | Inr gdp_melted \<Rightarrow>
          (case traverse (\<lambda>(c, y, raw). case clean_gdp_cell raw of
                                           Inl e \<Rightarrow> Inl e
                                         | Inr g \<Rightarrow> Inr (c, y, g)) gdp_melted of
             Inl e \<Rightarrow> Inl e
           | Inr cleaned \<Rightarrow>
               Inr (map (\<lambda>(c, y, g). \<lparr>country = c, year = y, long_value = g\<rparr>)
                      (filter (\<lambda>(c, y, g). \<not> isnan g) cleaned))))"

subsection \<open>\<open>merge_datasets\<close>\<close>

text \<open>
  \<open>pd.merge(life_long, gdp_long, on=["country", "year"], how="inner")\<close>: every pair of a
  left row and a right row with the same country and the same year gives one merged row.
\<close>

definition merge_datasets :: "long_record list \<Rightarrow> long_record list \<Rightarrow> merged_record list" where
  "merge_datasets life_long gdp_long =
     concat (map (\<lambda>l. map (\<lambda>g. \<lparr>country = country l, year = year l,
                                 life_expectancy = long_value l, gdp_per_capita = long_value g\<rparr>)
                          (filter (\<lambda>g. country g = country l \<and> year g = year l) gdp_long))
                 life_long)"

section \<open>Analyzer\<close>

subsection \<open>\<open>filter_2020_data\<close>\<close>

text \<open>Four selections by a boolean mask, one after the other, as in the source.\<close>

definition filter_2020_data :: "merged_record list \<Rightarrow> merged_record list" where
  "filter_2020_data df =
     (let df_2020 = filter (\<lambda>r. year r = 2020) df;
          df_2020 = filter (\<lambda>r. fgt (gdp_per_capita r) (Fin 0) \<and> fgt (life_expectancy r) (Fin 0)) df_2020;
          df_2020 = filter (\<lambda>r. fgt (life_expectancy r) (Fin 10)) df_2020;
          df_2020 = filter (\<lambda>r. flt (gdp_per_capita r) (Fin 1000000)) df_2020
      in df_2020)"

subsection \<open>The statistics library\<close>

text \<open>
  \<open>scipy.stats.pearsonr\<close> and \<open>scipy.stats.ttest_1samp\<close> are library calls, and each
  returns the pair of a statistic and a p-value. What is modelled of them is which
  inputs raise and which give NaN without any computation. The computation itself, in
  floating point, is a parameter: a function from the sample or samples to the pair it
  returns.
\<close>

text \<open>\<open>(x == x[0]).all()\<close>: the float equality, which NaN fails even against itself.\<close>

fun feq :: "pyfloat \<Rightarrow> pyfloat \<Rightarrow> bool" where
  "feq NaN _ = False"
| "feq _ NaN = False"
| "feq a b = (a = b)"

definition constant_input :: "pyfloat list \<Rightarrow> bool" where
  "constant_input x = list_all (\<lambda>v. feq v (hd x)) x"

text \<open>
  \<open>pearsonr(x, y)\<close> for two columns of one frame: fewer than two observations raise
  \<open>ValueError\<close>; a constant column gives NaN for both results (with a warning, which is
  not an exception); otherwise the library computes \<open>corr x y\<close>.
\<close>

definition pearsonr ::
  "(pyfloat list \<Rightarrow> pyfloat list \<Rightarrow> pyfloat \<times> pyfloat) \<Rightarrow>
     pyfloat list \<Rightarrow> pyfloat list \<Rightarrow> pyerror + pyfloat \<times> pyfloat" where
  "pearsonr corr x y =
     (let n = length x in
      if n < 2 then Inl ValueError
      else if constant_input x \<or> constant_input y then Inr (NaN, NaN)
      else Inr (corr x y))"

text \<open>
  \<open>ttest_1samp(a, popmean)\<close>: it does not raise; fewer than two observations give NaN
  for both results; otherwise the library computes \<open>tstat a popmean\<close>.
\<close>

definition ttest_1samp ::
  "(pyfloat list \<Rightarrow> pyfloat \<Rightarrow> pyfloat \<times> pyfloat) \<Rightarrow>
     pyfloat list \<Rightarrow> pyfloat \<Rightarrow> pyerror + pyfloat \<times> pyfloat" where
  "ttest_1samp tstat a popmean =
     (if length a < 2 then Inr (NaN, NaN) else Inr (tstat a popmean))"

subsection \<open>\<open>compute_pearson\<close>\<close>

definition compute_pearson ::
  "(pyfloat list \<Rightarrow> pyfloat list \<Rightarrow> pyfloat \<times> pyfloat) \<Rightarrow>
     'a merged_record_scheme list \<Rightarrow> pyerror + pyfloat \<times> pyfloat" where
  "compute_pearson corr df = pearsonr corr (map gdp_per_capita df) (map life_expectancy df)"

subsection \<open>\<open>paired_ttest_czech\<close>\<close>

text \<open>
  \<open>sort_values(by="year")\<close> returns a new frame, in ascending order of year. The
  library does not promise an order for rows of the same year; here they keep the order
  they had, and no property below depends on that except where it says so.
  \<open>le_vals[1:] - le_vals[:-1]\<close> subtracts element by element.
\<close>

definition paired_ttest_czech ::
  "(pyfloat list \<Rightarrow> pyfloat \<Rightarrow> pyfloat \<times> pyfloat) \<Rightarrow>
     'a merged_record_scheme list \<Rightarrow> pyerror + pyfloat \<times> pyfloat" where
  "paired_ttest_czech tstat df_cz =
     (let cz_sorted = sort_key year df_cz;
          le_vals = map life_expectancy cz_sorted;
          diffs = map (\<lambda>(a, b). fsub a b) (zip (drop 1 le_vals) (butlast le_vals))
      in ttest_1samp tstat diffs (Fin 0))"

subsection \<open>Counting cells\<close>

text \<open>
  The number of cells of a wide table that are not missing, for a given test of what a
  missing cell is, and the tables whose year labels \<open>astype(int)\<close> accepts.
\<close>

definition count_cells :: "('c \<Rightarrow> bool) \<Rightarrow> 'c wide_table \<Rightarrow> nat" where
  "count_cells missing t =
     sum_list (map (\<lambda>(lbl, cells). length (filter (\<lambda>v. \<not> missing v) cells)) (year_cols t))"

definition int_labels :: "'c wide_table \<Rightarrow> bool" where
  "int_labels t = list_all (\<lambda>(lbl, cells). \<not> isl (astype_int64 lbl)) (year_cols t)"

text \<open>
  The cells of a wide table that are not missing, each with its country and its year
  label: every position, a column and a row number, is visited once.
\<close>

definition present_cells :: "('c \<Rightarrow> bool) \<Rightarrow> 'c wide_table \<Rightarrow> (string \<times> string \<times> 'c) list" where
  "present_cells missing t =
     concat (map (\<lambda>(lbl, cells).
                    concat (map (\<lambda>i. if missing (cells ! i) then []
                                      else [(country_col t ! i, lbl, cells ! i)])
                                [0..<length (country_col t)]))
                 (year_cols t))"

section \<open>Properties of \<open>clean_gdp_cell\<close>\<close>

lemma py_float_error: "py_float s = Inl e \<Longrightarrow> e = ValueError"
  by (auto simp: py_float_def split: option.splits prod.splits)

lemma clean_gdp_cell_Some:
  "clean_gdp_cell (Some v) =
     (case py_float (gdp_num_str v) of
        Inr x \<Rightarrow> Inr (if endswith_k (strip v) then fscale x 1000 else x)
      | Inl e \<Rightarrow> Inr NaN)"
proof (cases "py_float (gdp_num_str v)")
  case (Inl e)
  then have e: "py_float (gdp_num_str v) = Inl ValueError"
    using py_float_error by blast
  show ?thesis
  proof (cases "endswith_k (strip v)")
    case True
    with e have "py_float (strip (remove_commas (drop_last (strip v)))) = Inl ValueError"
      by (simp add: gdp_num_str_def)
    with True e show ?thesis
      by (simp add: clean_gdp_cell_def)
  next
    case False
    with e have "py_float (strip (remove_commas (strip v))) = Inl ValueError"
      by (simp add: gdp_num_str_def)
    with False e show ?thesis
      by (simp add: clean_gdp_cell_def)
  qed
next
  case (Inr x)
  show ?thesis
  proof (cases "endswith_k (strip v)")
    case True
    with Inr have "py_float (strip (remove_commas (drop_last (strip v)))) = Inr x"
      by (simp add: gdp_num_str_def)
    with True Inr show ?thesis
      by (simp add: clean_gdp_cell_def)
  next
    case False
    with Inr have "py_float (strip (remove_commas (strip v))) = Inr x"
      by (simp add: gdp_num_str_def)
    with False Inr show ?thesis
      by (simp add: clean_gdp_cell_def)
  qed
qed

lemmas text_defs = strip_def is_space_def endswith_k_def drop_last_def remove_commas_def
  py_float_def float_strip_def is_float_space_def read_number_def read_exponent_def is_digit_def
  digits_val_def digit_val_def pow10_def read_inf_nan_def lower_def

lemma bit_length_from_0: "bit_length_from k 0 = k"
  by (simp add: bit_length_from.simps)

lemma bit_length_from_pos: "0 < n \<Longrightarrow> bit_length_from k n = bit_length_from (k + 1) (n div 2)"
  by (subst bit_length_from.simps) simp

lemmas float_defs = round_binary64_def floor_log2_def pow2_def round_half_even_def
  bit_length_def bit_length_from_0 bit_length_from_pos Let_def

text \<open>
  C1. \<open>clean_gdp_cell\<close> is total on absent cells and on every text: it always returns a
  float and never lets an exception escape. An absent cell gives NaN, and whenever
  \<open>float\<close> rejects the prepared text the result is NaN, the missing value, not zero.
\<close>

theorem clean_gdp_cell_total:
  "(\<exists>x. clean_gdp_cell cell = Inr x) \<and>
   clean_gdp_cell None = Inr NaN \<and>
   (\<forall>v e. cell = Some v \<and> py_float (gdp_num_str v) = Inl e \<longrightarrow> clean_gdp_cell cell = Inr NaN)"
proof (intro conjI allI impI)
  show "\<exists>x. clean_gdp_cell cell = Inr x"
  proof (cases cell)
    case None
    then show ?thesis by (simp add: clean_gdp_cell_def)
  next
    case (Some v)
    then show ?thesis by (simp add: clean_gdp_cell_Some split: sum.split)
  qed
  show "clean_gdp_cell None = Inr NaN"
    by (simp add: clean_gdp_cell_def)
  show "clean_gdp_cell cell = Inr NaN" if "cell = Some v \<and> py_float (gdp_num_str v) = Inl e" for v e
    using that by (simp add: clean_gdp_cell_Some)
qed

theorem clean_gdp_cell_total_witness:
  "py_float (gdp_num_str ''12x4'') = Inl ValueError \<and> clean_gdp_cell (Some ''12x4'') = Inr NaN"
proof -
  have h: "py_float (gdp_num_str ''12x4'') = Inl ValueError"
    by (simp add: gdp_num_str_def text_defs)
  from clean_gdp_cell_total [of "Some ''12x4''"] h show ?thesis
    by blast
qed

text \<open>
  C2. The listed cells have the listed values: "27.7k" gives 27700, "5380" gives 5380,
  "1,234" gives 1234, "1.2K" gives 1200, and the empty text, an absent cell and "abc"
  give the missing value. In general, when the trimmed text ends in k or K, the suffix is
  dropped, the commas are removed, the rest is read by \<open>float\<close> and multiplied by 1000;
  any other text has its commas removed and is read directly; a text that \<open>float\<close>
  rejects gives the missing value.
\<close>

theorem clean_gdp_cell_values:
  "clean_gdp_cell (Some ''27.7k'') = Inr (Fin 27700) \<and>
   clean_gdp_cell (Some ''5380'') = Inr (Fin 5380) \<and>
   clean_gdp_cell (Some ''1,234'') = Inr (Fin 1234) \<and>
   clean_gdp_cell (Some ''1.2K'') = Inr (Fin 1200) \<and>
   clean_gdp_cell (Some []) = Inr NaN \<and>
   clean_gdp_cell None = Inr NaN \<and>
   clean_gdp_cell (Some ''abc'') = Inr NaN \<and>
   (endswith_k (strip v) \<longrightarrow>
      clean_gdp_cell (Some v) =
        (case py_float (strip (remove_commas (drop_last (strip v)))) of
           Inr x \<Rightarrow> Inr (fscale x 1000) | Inl e \<Rightarrow> Inr NaN)) \<and>
   (\<not> endswith_k (strip v) \<longrightarrow>
      clean_gdp_cell (Some v) =
        (case py_float (strip (remove_commas (strip v))) of
           Inr x \<Rightarrow> Inr x | Inl e \<Rightarrow> Inr NaN))"
proof -
  have "clean_gdp_cell (Some ''27.7k'') = Inr (Fin 27700)"
    by (simp add: clean_gdp_cell_Some gdp_num_str_def text_defs float_defs)
  moreover have "clean_gdp_cell (Some ''5380'') = Inr (Fin 5380)"
    by (simp add: clean_gdp_cell_Some gdp_num_str_def text_defs float_defs)
  moreover have "clean_gdp_cell (Some ''1,234'') = Inr (Fin 1234)"
    by (simp add: clean_gdp_cell_Some gdp_num_str_def text_defs float_defs)
  moreover have "clean_gdp_cell (Some ''1.2K'') = Inr (Fin 1200)"
    by (simp add: clean_gdp_cell_Some gdp_num_str_def text_defs float_defs)
  moreover have "clean_gdp_cell (Some []) = Inr NaN"
    by (simp add: clean_gdp_cell_Some gdp_num_str_def text_defs float_defs)
  moreover have "clean_gdp_cell None = Inr NaN"
    by (simp add: clean_gdp_cell_def)
  moreover have "clean_gdp_cell (Some ''abc'') = Inr NaN"
    by (simp add: clean_gdp_cell_Some gdp_num_str_def text_defs float_defs)
  moreover have "endswith_k (strip v) \<longrightarrow>
      clean_gdp_cell (Some v) =
        (case py_float (strip (remove_commas (drop_last (strip v)))) of
           Inr x \<Rightarrow> Inr (fscale x 1000) | Inl e \<Rightarrow> Inr NaN)"
    by (simp add: clean_gdp_cell_Some gdp_num_str_def split: sum.split)
  moreover have "\<not> endswith_k (strip v) \<longrightarrow>
      clean_gdp_cell (Some v) =
        (case py_float (strip (remove_commas (strip v))) of
           Inr x \<Rightarrow> Inr x | Inl e \<Rightarrow> Inr NaN)"
    by (simp add: clean_gdp_cell_Some gdp_num_str_def split: sum.split)
  ultimately show ?thesis by blast
qed

theorem clean_gdp_cell_values_witness:
  "endswith_k (strip '' 81,5 K '') \<and> clean_gdp_cell (Some '' 81,5 K '') = Inr (Fin 815000) \<and>
   \<not> endswith_k (strip ''1e3'') \<and> clean_gdp_cell (Some ''1e3'') = Inr (Fin 1000) \<and>
   endswith_k (strip ''16.1k'') \<and>
   clean_gdp_cell (Some ''16.1k'') = Inr (Fin (8851068603596801 / 549755813888))"
proof -
  have a: "endswith_k (strip '' 81,5 K '')"
    by (simp add: text_defs)
  have b: "py_float (strip (remove_commas (drop_last (strip '' 81,5 K '')))) = Inr (Fin 815)"
    by (simp add: text_defs float_defs)
  have c: "\<not> endswith_k (strip ''1e3'')"
    by (simp add: text_defs)
  have d: "py_float (strip (remove_commas (strip ''1e3''))) = Inr (Fin 1000)"
    by (simp add: text_defs float_defs)
  have e: "endswith_k (strip ''16.1k'')"
    by (simp add: text_defs)
  have f: "py_float (strip (remove_commas (drop_last (strip ''16.1k'')))) =
             Inr (Fin (2265873562520781 / 140737488355328))"
    by (simp add: text_defs float_defs)
  from clean_gdp_cell_values [of "'' 81,5 K ''"] a b
  have "clean_gdp_cell (Some '' 81,5 K '') = Inr (Fin 815000)"
    by (simp add: float_defs)
  moreover from clean_gdp_cell_values [of "''1e3''"] c d
  have "clean_gdp_cell (Some ''1e3'') = Inr (Fin 1000)"
    by simp
  moreover from clean_gdp_cell_values [of "''16.1k''"] e f
  have "clean_gdp_cell (Some ''16.1k'') = Inr (Fin (8851068603596801 / 549755813888))"
    by (simp add: float_defs)
  ultimately show ?thesis using a c e by blast
qed

section \<open>Properties of the year filter\<close>

text \<open>
  C3. \<open>filter_2020_data\<close> keeps exactly the rows, in their order, for which all five
  tests hold together: the year is 2020, \<open>gdp_per_capita > 0\<close>, \<open>life_expectancy > 0\<close>,
  \<open>life_expectancy > 10\<close> and \<open>gdp_per_capita < 1e6\<close>. Every other row is dropped, and
  no input makes the function fail.
\<close>

theorem filter_2020_data_conjunction:
  "filter_2020_data df =
     filter (\<lambda>r. year r = 2020 \<and> fgt (gdp_per_capita r) (Fin 0) \<and> fgt (life_expectancy r) (Fin 0) \<and>
                 fgt (life_expectancy r) (Fin 10) \<and> flt (gdp_per_capita r) (Fin 1000000)) df"
  unfolding filter_2020_data_def Let_def filter_filter
  by (rule filter_cong) auto

text \<open>
  C9. The year filter is idempotent: filtering its own output again returns that output.
\<close>

theorem filter_2020_data_idempotent:
  "filter_2020_data (filter_2020_data df) = filter_2020_data df"
  unfolding filter_2020_data_def Let_def filter_filter
  by (rule filter_cong) auto

section \<open>Properties of the join\<close>

lemma merge_datasets_key_image:
  "key_of ` set (merge_datasets A B) = {k. k \<in> key_of ` set A \<and> k \<in> key_of ` set B}"
proof (intro set_eqI iffI)
  fix k assume "k \<in> key_of ` set (merge_datasets A B)"
  then obtain l g where "l \<in> set A" "g \<in> set B" "country g = country l" "year g = year l"
      "k = (country l, year l)"
    by (auto simp: merge_datasets_def key_of_def)
  then have "k = key_of l" "k = key_of g"
    by (simp_all add: key_of_def)
  with \<open>l \<in> set A\<close> \<open>g \<in> set B\<close> show "k \<in> {k. k \<in> key_of ` set A \<and> k \<in> key_of ` set B}"
    by blast
next
  fix k assume "k \<in> {k. k \<in> key_of ` set A \<and> k \<in> key_of ` set B}"
  then obtain l g where lg: "l \<in> set A" "g \<in> set B" "k = key_of l" "k = key_of g"
    by blast
  then have eq: "country g = country l" "year g = year l"
    by (simp_all add: key_of_def)
  let ?m = "\<lparr>country = country l, year = year l,
             life_expectancy = long_value l, gdp_per_capita = long_value g\<rparr>"
  have "?m \<in> set (merge_datasets A B)"
    using lg(1,2) eq by (auto simp: merge_datasets_def)
  moreover have "key_of ?m = k"
    using lg(3) by (simp add: key_of_def)
  ultimately show "k \<in> key_of ` set (merge_datasets A B)"
    by blast
qed

text \<open>
  C4. \<open>merge_datasets\<close> is an inner join on (country, year): the keys of the merged
  table are exactly the keys that occur in both long tables, and joining the two tables
  in the other order gives the same set of keys.
\<close>

theorem merge_datasets_keys:
  "set (map key_of (merge_datasets life_long gdp_long)) =
     set (map key_of life_long) \<inter> set (map key_of gdp_long) \<and>
   set (map key_of (merge_datasets life_long gdp_long)) =
     set (map key_of (merge_datasets gdp_long life_long))"
  unfolding set_map merge_datasets_key_image by blast

section \<open>Properties of the melts\<close>

lemma traverse_all_Inr:
  "(\<And>x. x \<in> set xs \<Longrightarrow> \<not> isl (f x)) \<Longrightarrow> traverse f xs = Inr (map (\<lambda>x. projr (f x)) xs)"
proof (induction xs)
  case Nil
  then show ?case by simp
next
  case (Cons x xs)
  then have "\<not> isl (f x)" by simp
  then obtain y where y: "f x = Inr y" by (cases "f x") auto
  from Cons have "traverse f xs = Inr (map (\<lambda>x. projr (f x)) xs)" by simp
  with y show ?case by simp
qed

lemma not_isl_case:
  "\<not> isl p \<Longrightarrow> \<not> isl (case p of Inl e \<Rightarrow> Inl e | Inr y \<Rightarrow> Inr (g y))"
  by (cases p) auto

lemma projr_case:
  "\<not> isl p \<Longrightarrow> projr (case p of Inl e \<Rightarrow> Inl e | Inr y \<Rightarrow> Inr (g y)) = g (projr p)"
  by (cases p) auto

lemma melt_labels:
  "(c, lbl, v) \<in> set (melt t) \<Longrightarrow> lbl \<in> fst ` set (year_cols t)"
  by (auto simp: melt_def image_iff) (metis fst_conv)

lemma year_astype_int_ok:
  assumes "int_labels t"
  shows "year_astype_int (melt t) = Inr (map (\<lambda>(c, lbl, v). (c, projr (astype_int64 lbl), v)) (melt t))"
proof -
  have ok: "\<not> isl (astype_int64 lbl)" if "(c, lbl, v) \<in> set (melt t)" for c lbl v
    using melt_labels [OF that] assms by (auto simp: int_labels_def list_all_iff)
  have "year_astype_int (melt t) =
          Inr (map (\<lambda>x. projr ((\<lambda>(c, lbl, v). case astype_int64 lbl of Inl e \<Rightarrow> Inl e | Inr y \<Rightarrow> Inr (c, y, v)) x)) (melt t))"
    unfolding year_astype_int_def
  proof (rule traverse_all_Inr)
    fix x assume "x \<in> set (melt t)"
    moreover obtain c lbl v where "x = (c, lbl, v)" by (cases x)
    ultimately show "\<not> isl ((\<lambda>(c, lbl, v). case astype_int64 lbl of Inl e \<Rightarrow> Inl e | Inr y \<Rightarrow> Inr (c, y, v)) x)"
      using ok [of c lbl v] by (simp add: not_isl_case)
  qed
  also have "map (\<lambda>x. projr ((\<lambda>(c, lbl, v). case astype_int64 lbl of Inl e \<Rightarrow> Inl e | Inr y \<Rightarrow> Inr (c, y, v)) x)) (melt t)
           = map (\<lambda>(c, lbl, v). (c, projr (astype_int64 lbl), v)) (melt t)"
  proof (rule map_cong [OF refl])
    fix x assume "x \<in> set (melt t)"
    moreover obtain c lbl v where "x = (c, lbl, v)" by (cases x)
    ultimately show "projr ((\<lambda>(c, lbl, v). case astype_int64 lbl of Inl e \<Rightarrow> Inl e | Inr y \<Rightarrow> Inr (c, y, v)) x)
             = (\<lambda>(c, lbl, v). (c, projr (astype_int64 lbl), v)) x"
      using ok [of c lbl v] by (simp add: projr_case)
  qed
  finally show ?thesis .
qed

lemma filter_indexed:
  "filter (\<lambda>(c, l, v). \<not> missing v) (map (\<lambda>i. (g i, lbl, h i)) js) =
     concat (map (\<lambda>i. if missing (h i) then [] else [(g i, lbl, h i)]) js)"
  by (induction js) simp_all

lemma filter_column:
  assumes "length cells = length cs"
  shows "filter (\<lambda>(c, l, v). \<not> missing v) (map (\<lambda>(c, v). (c, lbl, v)) (zip cs cells)) =
         concat (map (\<lambda>i. if missing (cells ! i) then [] else [(cs ! i, lbl, cells ! i)])
                     [0..<length cs])"
proof -
  have "zip cs cells = map (\<lambda>i. (cs ! i, cells ! i)) [0..<length cs]"
    using assms by (intro nth_equalityI) simp_all
  then have "map (\<lambda>(c, v). (c, lbl, v)) (zip cs cells) =
             map (\<lambda>i. (cs ! i, lbl, cells ! i)) [0..<length cs]"
    by simp
  then show ?thesis
    by (simp only: filter_indexed)
qed

lemma filter_melt:
  assumes "wf_wide t"
  shows "filter (\<lambda>(c, l, v). \<not> missing v) (melt t) = present_cells missing t"
proof -
  have "filter (\<lambda>(c, l, v). \<not> missing v)
           (concat (map (\<lambda>(lbl, cells). map (\<lambda>(c, v). (c, lbl, v)) (zip cs cells)) cols))
      = concat (map (\<lambda>(lbl, cells).
                    concat (map (\<lambda>i. if missing (cells ! i) then [] else [(cs ! i, lbl, cells ! i)])
                                [0..<length cs])) cols)"
    if "list_all (\<lambda>(lbl, cells). length cells = length cs) cols" for cols and cs :: "string list"
    using that
  proof (induction cols)
    case Nil
    then show ?case by simp
  next
    case (Cons col cols)
    obtain lbl cells where col: "col = (lbl, cells)" by (cases col)
    with Cons.prems have len: "length cells = length cs" by simp
    from Cons have IH: "filter (\<lambda>(c, l, v). \<not> missing v)
           (concat (map (\<lambda>(lbl, cells). map (\<lambda>(c, v). (c, lbl, v)) (zip cs cells)) cols))
      = concat (map (\<lambda>(lbl, cells).
                    concat (map (\<lambda>i. if missing (cells ! i) then [] else [(cs ! i, lbl, cells ! i)])
                                [0..<length cs])) cols)" by simp
    show ?case
      using filter_column [OF len, of missing lbl] IH by (simp add: col)
  qed
  from this [of "country_col t" "year_cols t"] assms show ?thesis
    by (simp add: melt_def present_cells_def wf_wide_def)
qed

lemma length_present_cells:
  assumes "wf_wide t"
  shows "length (present_cells missing t) = count_cells missing t"
proof -
  have col: "length (concat (map (\<lambda>i. if missing (cells ! i) then [] else [(cs ! i, lbl, cells ! i)])
                                 [0..<length cs])) = length (filter (\<lambda>v. \<not> missing v) cells)"
    if "length cells = length cs" for cells :: "'a list" and cs :: "string list" and lbl :: string
  proof -
    have "length (filter (\<lambda>(c, l, v). \<not> missing v) (map (\<lambda>(c, v). (c, lbl, v)) (zip cs cells)))
        = length (filter (\<lambda>v. \<not> missing v) (map snd (zip cs cells)))"
      by (simp add: filter_map comp_def case_prod_unfold)
    also have "map snd (zip cs cells) = cells"
      using that by (simp add: map_snd_zip)
    finally show ?thesis
      using filter_column [OF that, of missing lbl] by simp
  qed
  have "length (concat (map (\<lambda>(lbl, cells).
                    concat (map (\<lambda>i. if missing (cells ! i) then [] else [(cs ! i, lbl, cells ! i)])
                                [0..<length cs])) cols))
      = sum_list (map (\<lambda>(lbl, cells). length (filter (\<lambda>v. \<not> missing v) cells)) cols)"
    if "list_all (\<lambda>(lbl, cells). length cells = length cs) cols"
    for cols :: "(string \<times> 'a list) list" and cs :: "string list"
    using that
  proof (induction cols)
    case Nil
    then show ?case by simp
  next
    case (Cons c cols)
    obtain lbl cells where c: "c = (lbl, cells)" by (cases c)
    with Cons.prems have len: "length cells = length cs" by simp
    from Cons have "length (concat (map (\<lambda>(lbl, cells).
                    concat (map (\<lambda>i. if missing (cells ! i) then [] else [(cs ! i, lbl, cells ! i)])
                                [0..<length cs])) cols))
      = sum_list (map (\<lambda>(lbl, cells). length (filter (\<lambda>v. \<not> missing v) cells)) cols)" by simp
    with col [OF len] show ?case by (simp add: c)
  qed
  from this [of "country_col t" "year_cols t"] assms show ?thesis
    by (simp add: present_cells_def count_cells_def wf_wide_def)
qed

lemma melt_life_expectancy_rows:
  assumes "wf_wide t" "int_labels t"
  shows "melt_life_expectancy t =
           Inr (map (\<lambda>(c, lbl, v). \<lparr>country = c, year = projr (astype_int64 lbl), long_value = v\<rparr>)
                    (present_cells isnan t))"
proof -
  have "filter (\<lambda>(c, y, v). \<not> isnan v) (map (\<lambda>(c, lbl, v). (c, projr (astype_int64 lbl), v)) (melt t))
      = map (\<lambda>(c, lbl, v). (c, projr (astype_int64 lbl), v)) (filter (\<lambda>(c, l, v). \<not> isnan v) (melt t))"
    by (simp add: filter_map comp_def case_prod_unfold)
  also have "filter (\<lambda>(c, l, v). \<not> isnan v) (melt t) = present_cells isnan t"
    using assms(1) by (rule filter_melt)
  finally have flt: "filter (\<lambda>(c, y, v). \<not> isnan v)
        (map (\<lambda>(c, lbl, v). (c, projr (astype_int64 lbl), v)) (melt t))
      = map (\<lambda>(c, lbl, v). (c, projr (astype_int64 lbl), v)) (present_cells isnan t)" .
  have "melt_life_expectancy t =
          Inr (map (\<lambda>(c, y, v). \<lparr>country = c, year = y, long_value = v\<rparr>)
                 (filter (\<lambda>(c, y, v). \<not> isnan v)
                    (map (\<lambda>(c, lbl, v). (c, projr (astype_int64 lbl), v)) (melt t))))"
    by (simp add: melt_life_expectancy_def year_astype_int_ok [OF assms(2)])
  then show ?thesis
    unfolding flt by (simp add: comp_def case_prod_unfold)
qed

lemma clean_gdp_cell_not_isl: "\<not> isl (clean_gdp_cell raw)"
  by (cases raw) (simp_all add: clean_gdp_cell_def [of None] clean_gdp_cell_Some split: sum.split)

lemma melt_gdp_per_capita_rows:
  assumes "wf_wide t" "int_labels t"
  shows "melt_gdp_per_capita t =
           Inr (map (\<lambda>(c, lbl, raw). \<lparr>country = c, year = projr (astype_int64 lbl),
                                      long_value = projr (clean_gdp_cell raw)\<rparr>)
                    (present_cells (\<lambda>raw. clean_gdp_cell raw = Inr NaN) t))"
proof -
  let ?rows = "map (\<lambda>(c, lbl, v). (c, projr (astype_int64 lbl), v)) (melt t)"
  let ?f = "\<lambda>(c :: string, y :: int, raw). case clean_gdp_cell raw of
                Inl e \<Rightarrow> Inl e | Inr g \<Rightarrow> Inr (c, y, g)"
  have "traverse ?f ?rows = Inr (map (\<lambda>x. projr (?f x)) ?rows)"
  proof (rule traverse_all_Inr)
    fix x assume "x \<in> set ?rows"
    obtain c y raw where "x = (c, y, raw)" by (cases x)
    then show "\<not> isl (?f x)"
      by (simp add: not_isl_case clean_gdp_cell_not_isl)
  qed
  moreover have "map (\<lambda>x. projr (?f x)) ?rows = map (\<lambda>(c, y, raw). (c, y, projr (clean_gdp_cell raw))) ?rows"
  proof (rule map_cong [OF refl])
    fix x assume "x \<in> set ?rows"
    obtain c y raw where "x = (c, y, raw)" by (cases x)
    then show "projr (?f x) = (\<lambda>(c, y, raw). (c, y, projr (clean_gdp_cell raw))) x"
      by (simp add: projr_case clean_gdp_cell_not_isl)
  qed
  ultimately have tr: "traverse ?f ?rows = Inr (map (\<lambda>(c, y, raw). (c, y, projr (clean_gdp_cell raw))) ?rows)"
    by simp
  have nan: "isnan (projr (clean_gdp_cell raw)) = (clean_gdp_cell raw = Inr NaN)" for raw
    using clean_gdp_cell_not_isl [of raw]
    by (cases "clean_gdp_cell raw") (auto elim: isnan.elims)
  have "filter (\<lambda>(c, y, g). \<not> isnan g) (map (\<lambda>(c, y, raw). (c, y, projr (clean_gdp_cell raw))) ?rows)
      = map (\<lambda>(c, lbl, raw). (c, projr (astype_int64 lbl), projr (clean_gdp_cell raw)))
            (filter (\<lambda>(c, l, v). \<not> clean_gdp_cell v = Inr NaN) (melt t))"
    by (simp add: filter_map comp_def case_prod_unfold nan)
  also have "filter (\<lambda>(c, l, v). \<not> clean_gdp_cell v = Inr NaN) (melt t)
           = present_cells (\<lambda>raw. clean_gdp_cell raw = Inr NaN) t"
    using assms(1) by (rule filter_melt)
  finally have flt: "filter (\<lambda>(c, y, g). \<not> isnan g)
        (map (\<lambda>(c, y, raw). (c, y, projr (clean_gdp_cell raw))) ?rows)
      = map (\<lambda>(c, lbl, raw). (c, projr (astype_int64 lbl), projr (clean_gdp_cell raw)))
            (present_cells (\<lambda>raw. clean_gdp_cell raw = Inr NaN) t)" .
  have "melt_gdp_per_capita t =
          Inr (map (\<lambda>(c, y, g). \<lparr>country = c, year = y, long_value = g\<rparr>)
                 (filter (\<lambda>(c, y, g). \<not> isnan g)
                    (map (\<lambda>(c, y, raw). (c, y, projr (clean_gdp_cell raw))) ?rows)))"
    by (simp add: melt_gdp_per_capita_def year_astype_int_ok [OF assms(2)] tr)
  then show ?thesis
    unfolding flt by (simp add: comp_def case_prod_unfold)
qed

text \<open>
  C8, as the code has it. Take a well-formed wide table whose year labels
  \<open>astype(int)\<close> accepts. \<open>melt_life_expectancy\<close> returns exactly one row for each cell
  that is not missing, with the cell's country, year and value, and no other row: no
  present cell is lost and none is duplicated, so there are as many rows as cells that
  are not missing. \<open>melt_gdp_per_capita\<close> returns exactly one row for each cell whose
  cleaned value is not missing, with the cleaned value: an absent cell and a present
  cell that does not parse are both dropped, and there are as many rows as cells whose
  cleaned value is not missing.
\<close>

theorem melt_counts:
  assumes "wf_wide life_df" "int_labels life_df" "wf_wide gdp_df" "int_labels gdp_df"
  shows "(\<exists>out. melt_life_expectancy life_df = Inr out \<and>
            out = map (\<lambda>(c, lbl, v). \<lparr>country = c, year = projr (astype_int64 lbl), long_value = v\<rparr>)
                      (present_cells isnan life_df) \<and>
            length out = count_cells isnan life_df) \<and>
         (\<exists>out. melt_gdp_per_capita gdp_df = Inr out \<and>
            out = map (\<lambda>(c, lbl, raw). \<lparr>country = c, year = projr (astype_int64 lbl),
                                         long_value = projr (clean_gdp_cell raw)\<rparr>)
                      (present_cells (\<lambda>raw. clean_gdp_cell raw = Inr NaN) gdp_df) \<and>
            length out = count_cells (\<lambda>raw. clean_gdp_cell raw = Inr NaN) gdp_df)"
  using melt_life_expectancy_rows [OF assms(1,2)] melt_gdp_per_capita_rows [OF assms(3,4)]
    length_present_cells [OF assms(1), of isnan]
    length_present_cells [OF assms(3), of "\<lambda>raw. clean_gdp_cell raw = Inr NaN"]
  by simp

theorem melt_counts_witness:
  "wf_wide (WideTable [''Chad'', ''Peru''] [(''2000'', [Fin 50, NaN]), (''2001'', [Fin 51, Fin 70])]) \<and>
   int_labels (WideTable [''Chad'', ''Peru''] [(''2000'', [Fin 50, NaN]), (''2001'', [Fin 51, Fin 70])]) \<and>
   wf_wide (WideTable [''Chad''] [(''2000'', [Some ''1.2k'']), (''2001'', [None])]) \<and>
   int_labels (WideTable [''Chad''] [(''2000'', [Some ''1.2k'']), (''2001'', [None])]) \<and>
   melt_life_expectancy
     (WideTable [''Chad'', ''Peru''] [(''2000'', [Fin 50, NaN]), (''2001'', [Fin 51, Fin 70])]) =
     Inr [\<lparr>country = ''Chad'', year = 2000, long_value = Fin 50\<rparr>,
          \<lparr>country = ''Chad'', year = 2001, long_value = Fin 51\<rparr>,
          \<lparr>country = ''Peru'', year = 2001, long_value = Fin 70\<rparr>] \<and>
   count_cells isnan
     (WideTable [''Chad'', ''Peru''] [(''2000'', [Fin 50, NaN]), (''2001'', [Fin 51, Fin 70])]) = 3 \<and>
   melt_gdp_per_capita (WideTable [''Chad''] [(''2000'', [Some ''1.2k'']), (''2001'', [None])]) =
     Inr [\<lparr>country = ''Chad'', year = 2000, long_value = Fin 1200\<rparr>] \<and>
   count_cells (\<lambda>raw. clean_gdp_cell raw = Inr NaN)
     (WideTable [''Chad''] [(''2000'', [Some ''1.2k'']), (''2001'', [None])]) = 1"
proof -
  let ?L = "WideTable [''Chad'', ''Peru''] [(''2000'', [Fin 50, NaN]), (''2001'', [Fin 51, Fin 70])]"
  let ?G = "WideTable [''Chad''] [(''2000'', [Some ''1.2k'']), (''2001'', [None])]"
  have y: "astype_int64 ''2000'' = Inr 2000" "astype_int64 ''2001'' = Inr 2001"
    by (simp_all add: astype_int64_def py_int_def text_defs)
  have k: "clean_gdp_cell (Some ''1.2k'') = Inr (Fin 1200)" "clean_gdp_cell None = Inr NaN"
    by (simp_all add: clean_gdp_cell_def [of None] clean_gdp_cell_Some gdp_num_str_def text_defs float_defs)
  have a: "wf_wide ?L" and c: "wf_wide ?G"
    by (simp_all add: wf_wide_def)
  have b: "int_labels ?L" and d: "int_labels ?G"
    by (simp_all add: int_labels_def y)
  have e: "count_cells isnan ?L = 3"
    by (simp add: count_cells_def)
  have f: "count_cells (\<lambda>raw. clean_gdp_cell raw = Inr NaN) ?G = 1"
    by (simp add: count_cells_def k)
  have p: "present_cells isnan ?L = [(''Chad'', ''2000'', Fin 50), (''Chad'', ''2001'', Fin 51),
                                     (''Peru'', ''2001'', Fin 70)]"
    by (simp add: present_cells_def upt_rec)
  have q: "present_cells (\<lambda>raw. clean_gdp_cell raw = Inr NaN) ?G = [(''Chad'', ''2000'', Some ''1.2k'')]"
    by (simp add: present_cells_def upt_rec k)
  from melt_counts [OF a b c d] a b c d e f show ?thesis
    unfolding p q by (simp add: y k)
qed

text \<open>
  C8 as stated fails for the GDP table: the cell "abc" of the year 2001 is present in
  the wide table, and no row comes out for it, so two present cells give one row.
\<close>

theorem melt_gdp_per_capita_loses_present_cell:
  "melt_gdp_per_capita (WideTable [''Chad''] [(''2000'', [Some ''1.2k'']), (''2001'', [Some ''abc''])]) =
     Inr [\<lparr>country = ''Chad'', year = 2000, long_value = Fin 1200\<rparr>] \<and>
   count_cells (\<lambda>raw. raw = None) (WideTable [''Chad''] [(''2000'', [Some ''1.2k'']), (''2001'', [Some ''abc''])]) = 2"
proof -
  have y: "astype_int64 ''2000'' = Inr 2000" "astype_int64 ''2001'' = Inr 2001"
    by (simp_all add: astype_int64_def py_int_def text_defs)
  have k: "clean_gdp_cell (Some ''1.2k'') = Inr (Fin 1200)" "clean_gdp_cell (Some ''abc'') = Inr NaN"
    by (simp_all add: clean_gdp_cell_Some gdp_num_str_def text_defs float_defs)
  show ?thesis
    by (simp add: melt_gdp_per_capita_def year_astype_int_def melt_def count_cells_def y k)
qed

text \<open>A year label beyond the 64-bit range makes the melt fail.\<close>

lemma melt_life_expectancy_label_overflow:
  "melt_life_expectancy (WideTable [''Chad''] [(''99999999999999999999'', [Fin 50])]) = Inl OverflowError"
  by (simp add: melt_life_expectancy_def year_astype_int_def melt_def astype_int64_def py_int_def
      text_defs)

section \<open>Properties of the analyses\<close>

text \<open>
  C6, as the code has it. \<open>compute_pearson\<close> checks nothing itself and hands the two
  columns to \<open>pearsonr\<close>. With fewer than two rows the call fails, with the library's
  \<open>ValueError\<close>. With two rows or more and a constant column it does not fail: it
  returns NaN for the coefficient and for the p-value. In every other case it returns
  what the library computes for the two columns, the coefficient and its p-value.
\<close>

theorem compute_pearson_cases:
  "(length df < 2 \<longrightarrow> compute_pearson corr df = Inl ValueError) \<and>
   (2 \<le> length df \<and>
      (constant_input (map gdp_per_capita df) \<or> constant_input (map life_expectancy df)) \<longrightarrow>
      compute_pearson corr df = Inr (NaN, NaN)) \<and>
   (2 \<le> length df \<and>
      \<not> constant_input (map gdp_per_capita df) \<and> \<not> constant_input (map life_expectancy df) \<longrightarrow>
      compute_pearson corr df = Inr (corr (map gdp_per_capita df) (map life_expectancy df)))"
  by (simp add: compute_pearson_def pearsonr_def Let_def)

text \<open>
  C6 as stated fails: on two rows with the same \<open>gdp_per_capita\<close> the call returns a
  result, NaN for the coefficient and for the p-value, instead of failing, whatever the
  library computes on other inputs.
\<close>

theorem compute_pearson_constant_column:
  "\<forall>corr. compute_pearson corr
     [\<lparr>country = ''Chad'', year = 2020, life_expectancy = Fin 53, gdp_per_capita = Fin 1000\<rparr>,
      \<lparr>country = ''Peru'', year = 2020, life_expectancy = Fin 77, gdp_per_capita = Fin 1000\<rparr>]
   = Inr (NaN, NaN)"
  by (simp add: compute_pearson_def pearsonr_def Let_def constant_input_def)

theorem compute_pearson_cases_witness:
  "\<forall>corr.
     compute_pearson corr ([] :: merged_record list) = Inl ValueError \<and>
     compute_pearson corr
       [\<lparr>country = ''Chad'', year = 2020, life_expectancy = Fin 53, gdp_per_capita = Fin 1000\<rparr>,
        \<lparr>country = ''Peru'', year = 2020, life_expectancy = Fin 53, gdp_per_capita = Fin 12000\<rparr>]
       = Inr (NaN, NaN) \<and>
     compute_pearson corr
       [\<lparr>country = ''Chad'', year = 2020, life_expectancy = Fin 53, gdp_per_capita = Fin 1000\<rparr>,
        \<lparr>country = ''Peru'', year = 2020, life_expectancy = Fin 77, gdp_per_capita = Fin 12000\<rparr>,
        \<lparr>country = ''Fiji'', year = 2020, life_expectancy = Fin 68, gdp_per_capita = Fin 5000\<rparr>]
       = Inr (corr [Fin 1000, Fin 12000, Fin 5000] [Fin 53, Fin 77, Fin 68])"
proof (intro allI conjI)
  fix corr :: "pyfloat list \<Rightarrow> pyfloat list \<Rightarrow> pyfloat \<times> pyfloat"
  let ?c = "[\<lparr>country = ''Chad'', year = 2020, life_expectancy = Fin 53, gdp_per_capita = Fin 1000\<rparr>,
      \<lparr>country = ''Peru'', year = 2020, life_expectancy = Fin 53, gdp_per_capita = Fin 12000\<rparr>]"
  let ?d = "[\<lparr>country = ''Chad'', year = 2020, life_expectancy = Fin 53, gdp_per_capita = Fin 1000\<rparr>,
      \<lparr>country = ''Peru'', year = 2020, life_expectancy = Fin 77, gdp_per_capita = Fin 12000\<rparr>,
      \<lparr>country = ''Fiji'', year = 2020, life_expectancy = Fin 68, gdp_per_capita = Fin 5000\<rparr>]"
  show "compute_pearson corr ([] :: merged_record list) = Inl ValueError"
    using compute_pearson_cases [of "[] :: merged_record list" corr] by simp
  show "compute_pearson corr ?c = Inr (NaN, NaN)"
    using compute_pearson_cases [of ?c corr] by (simp add: constant_input_def)
  show "compute_pearson corr ?d = Inr (corr [Fin 1000, Fin 12000, Fin 5000] [Fin 53, Fin 77, Fin 68])"
    using compute_pearson_cases [of ?d corr] by (simp add: constant_input_def)
qed

lemma ttest_1samp_small:
  "length a < 2 \<Longrightarrow> ttest_1samp tstat a m = Inr (NaN, NaN)"
  by (simp add: ttest_1samp_def)

lemma round_binary64_small:
  "round_binary64 0 = Fin 0" "round_binary64 1 = Fin 1" "round_binary64 2 = Fin 2"
  "round_binary64 (- 2) = Fin (- 2)"
  by (simp_all add: float_defs)

lemma consecutive_differences:
  "map (\<lambda>(a, b). fsub a b) (zip (drop 1 (map f xs)) (butlast (map f xs))) =
     map (\<lambda>i. fsub (f (xs ! Suc i)) (f (xs ! i))) [0..<length xs - 1]"
  by (rule nth_equalityI) (simp_all add: nth_butlast)

text \<open>
  C7, as the code has it. On rows in strictly ascending order of year,
  \<open>paired_ttest_czech\<close> runs the one-sample test against the mean 0 on the differences
  \<open>value[i+1] - value[i]\<close> of consecutive life expectancies. It checks nothing itself:
  with fewer than three rows, hence fewer than two differences, it does not fail and
  returns NaN for the statistic and for the p-value.
\<close>

theorem paired_ttest_czech_diffs:
  "(sorted_wrt (<) (map year df) \<longrightarrow>
      paired_ttest_czech tstat df =
        ttest_1samp tstat
          (map (\<lambda>i. fsub (life_expectancy (df ! Suc i)) (life_expectancy (df ! i)))
               [0..<length df - 1]) (Fin 0)) \<and>
   (length df < 3 \<longrightarrow> paired_ttest_czech tstat df = Inr (NaN, NaN))"
proof (intro conjI impI)
  assume "sorted_wrt (<) (map year df)"
  then have "sorted (map year df)"
    by (rule strict_sorted_imp_sorted)
  then have "sort_key year df = df"
    by (rule sort_key_id_if_sorted)
  then show "paired_ttest_czech tstat df =
        ttest_1samp tstat
          (map (\<lambda>i. fsub (life_expectancy (df ! Suc i)) (life_expectancy (df ! i)))
               [0..<length df - 1]) (Fin 0)"
    unfolding paired_ttest_czech_def Let_def consecutive_differences by simp
next
  assume "length df < 3"
  then have "length (map (\<lambda>(a, b). fsub a b)
                 (zip (drop 1 (map life_expectancy (sort_key year df)))
                      (butlast (map life_expectancy (sort_key year df))))) < 2"
    by simp
  then show "paired_ttest_czech tstat df = Inr (NaN, NaN)"
    unfolding paired_ttest_czech_def Let_def by (rule ttest_1samp_small)
qed

text \<open>
  C7 as stated fails: two rows give one difference, and the call returns a result, NaN
  for the statistic and for the p-value, instead of failing.
\<close>

theorem paired_ttest_czech_two_records:
  "\<forall>tstat. paired_ttest_czech tstat
     [\<lparr>country = ''Czech Republic'', year = 2000, life_expectancy = Fin 75, gdp_per_capita = Fin 15000\<rparr>,
      \<lparr>country = ''Czech Republic'', year = 2001, life_expectancy = Fin 75.5, gdp_per_capita = Fin 15750\<rparr>]
   = Inr (NaN, NaN)"
  by (simp add: paired_ttest_czech_def ttest_1samp_def Let_def)

theorem paired_ttest_czech_diffs_witness:
  "\<forall>tstat.
     sorted_wrt (<) (map year
       [\<lparr>country = ''Czech Republic'', year = 2000, life_expectancy = Fin 75, gdp_per_capita = Fin 15000\<rparr>,
        \<lparr>country = ''Czech Republic'', year = 2001, life_expectancy = Fin 76, gdp_per_capita = Fin 15750\<rparr>,
        \<lparr>country = ''Czech Republic'', year = 2002, life_expectancy = Fin 78, gdp_per_capita = Fin 16500\<rparr>]) \<and>
     paired_ttest_czech tstat
       [\<lparr>country = ''Czech Republic'', year = 2000, life_expectancy = Fin 75, gdp_per_capita = Fin 15000\<rparr>,
        \<lparr>country = ''Czech Republic'', year = 2001, life_expectancy = Fin 76, gdp_per_capita = Fin 15750\<rparr>,
        \<lparr>country = ''Czech Republic'', year = 2002, life_expectancy = Fin 78, gdp_per_capita = Fin 16500\<rparr>]
     = Inr (tstat [Fin 1, Fin 2] (Fin 0)) \<and>
     paired_ttest_czech tstat
       [\<lparr>country = ''Czech Republic'', year = 2000, life_expectancy = Fin 75, gdp_per_capita = Fin 15000\<rparr>]
     = Inr (NaN, NaN)"
proof (intro allI)
  fix tstat :: "pyfloat list \<Rightarrow> pyfloat \<Rightarrow> pyfloat \<times> pyfloat"
  let ?df = "[\<lparr>country = ''Czech Republic'', year = 2000, life_expectancy = Fin 75, gdp_per_capita = Fin 15000\<rparr>,
      \<lparr>country = ''Czech Republic'', year = 2001, life_expectancy = Fin 76, gdp_per_capita = Fin 15750\<rparr>,
      \<lparr>country = ''Czech Republic'', year = 2002, life_expectancy = Fin 78, gdp_per_capita = Fin 16500\<rparr>]"
  let ?one = "[\<lparr>country = ''Czech Republic'', year = 2000, life_expectancy = Fin 75, gdp_per_capita = Fin 15000\<rparr>]"
  have s: "sorted_wrt (<) (map year ?df)"
    by simp
  have up: "[0..<length ?df - 1] = [0, 1]"
    by (simp add: upt_rec)
  from paired_ttest_czech_diffs [of ?df tstat, THEN conjunct1] s
  have "paired_ttest_czech tstat ?df = Inr (tstat [Fin 1, Fin 2] (Fin 0))"
    unfolding up by (simp add: round_binary64_small ttest_1samp_def)
  moreover from paired_ttest_czech_diffs [of ?one tstat, THEN conjunct2]
  have "paired_ttest_czech tstat ?one = Inr (NaN, NaN)"
    by simp
  ultimately show "sorted_wrt (<) (map year ?df) \<and>
     paired_ttest_czech tstat ?df = Inr (tstat [Fin 1, Fin 2] (Fin 0)) \<and>
     paired_ttest_czech tstat ?one = Inr (NaN, NaN)"
    using s by blast
qed

lemma filter_same_key_distinct:
  "distinct (map f xs) \<Longrightarrow> k \<in> set xs \<Longrightarrow> filter (\<lambda>x. f k = f x) xs = [k]"
proof (induction xs)
  case Nil
  then show ?case by simp
next
  case (Cons x xs)
  show ?case
  proof (cases "k = x")
    case True
    have "filter (\<lambda>y. f x = f y) xs = []"
      using Cons.prems(1) by (auto simp: filter_empty_conv)
    with True show ?thesis by simp
  next
    case False
    with Cons.prems have "k \<in> set xs" by simp
    moreover have "f k \<noteq> f x"
    proof
      assume "f k = f x"
      with \<open>k \<in> set xs\<close> have "f x \<in> f ` set xs" by (metis imageI)
      with Cons.prems(1) show False by simp
    qed
    ultimately show ?thesis using Cons by simp
  qed
qed

lemma sort_key_permutation:
  assumes "distinct (map f xs)" "mset xs = mset ys"
  shows "sort_key f xs = sort_key f ys"
proof -
  have dy: "distinct (map f ys)"
    using assms by (metis mset_eq_imp_distinct_iff mset_map)
  have sets: "set xs = set ys"
    using assms(2) by (rule mset_eq_setD)
  show ?thesis
  proof (rule sym, rule properties_for_sort_key)
    show "mset (sort_key f xs) = mset ys"
      using assms(2) by simp
    show "sorted (map f (sort_key f xs))"
      by simp
    fix k assume "k \<in> set (sort_key f xs)"
    then have kx: "k \<in> set xs" by simp
    then have ky: "k \<in> set ys" using sets by simp
    have "filter (\<lambda>x. f k = f x) (sort_key f xs) = filter (\<lambda>x. f k = f x) xs"
      using sort_key_stable [of f "f k" xs] by (simp add: eq_commute)
    also have "\<dots> = [k]"
      using assms(1) kx by (rule filter_same_key_distinct)
    also have "[k] = filter (\<lambda>x. f k = f x) ys"
      using filter_same_key_distinct [OF dy ky] by simp
    finally show "filter (\<lambda>x. f k = f x) (sort_key f xs) = filter (\<lambda>x. f k = f x) ys" .
  qed
qed

text \<open>
  C10, as the code has it. When no year occurs twice in the input, every reordering of
  its rows gives the same result: the rows sorted by year are the same list.
\<close>

theorem paired_ttest_czech_permutation:
  "distinct (map year df) \<Longrightarrow> mset df = mset df' \<Longrightarrow>
     paired_ttest_czech tstat df = paired_ttest_czech tstat df'"
  by (simp add: paired_ttest_czech_def sort_key_permutation [of year df df'])

text \<open>
  C10 as stated fails when a year occurs twice. The sort sees the years only, and the
  two inputs below have the same column of years, so the two rows of the year 2000
  come out in the order they went in: the one-sample test is run on the differences
  2, -2 in one case and on -2, 0 in the other, two samples with the means 0 and -1, and
  the results agree only if the test does not tell these samples apart.
\<close>

theorem paired_ttest_czech_repeated_year:
  "mset [\<lparr>country = ''Czech Republic'', year = 2000, life_expectancy = Fin 70, gdp_per_capita = Fin 15000\<rparr>,
         \<lparr>country = ''Czech Republic'', year = 2000, life_expectancy = Fin 72, gdp_per_capita = Fin 15000\<rparr>,
         \<lparr>country = ''Czech Republic'', year = 2001, life_expectancy = Fin 70, gdp_per_capita = Fin 15000\<rparr>]
   = mset [\<lparr>country = ''Czech Republic'', year = 2000, life_expectancy = Fin 72, gdp_per_capita = Fin 15000\<rparr>,
           \<lparr>country = ''Czech Republic'', year = 2000, life_expectancy = Fin 70, gdp_per_capita = Fin 15000\<rparr>,
           \<lparr>country = ''Czech Republic'', year = 2001, life_expectancy = Fin 70, gdp_per_capita = Fin 15000\<rparr>] \<and>
   (\<forall>tstat.
      paired_ttest_czech tstat
        [\<lparr>country = ''Czech Republic'', year = 2000, life_expectancy = Fin 70, gdp_per_capita = Fin 15000\<rparr>,
         \<lparr>country = ''Czech Republic'', year = 2000, life_expectancy = Fin 72, gdp_per_capita = Fin 15000\<rparr>,
         \<lparr>country = ''Czech Republic'', year = 2001, life_expectancy = Fin 70, gdp_per_capita = Fin 15000\<rparr>]
        = Inr (tstat [Fin 2, Fin (- 2)] (Fin 0)) \<and>
      paired_ttest_czech tstat
        [\<lparr>country = ''Czech Republic'', year = 2000, life_expectancy = Fin 72, gdp_per_capita = Fin 15000\<rparr>,
         \<lparr>country = ''Czech Republic'', year = 2000, life_expectancy = Fin 70, gdp_per_capita = Fin 15000\<rparr>,
         \<lparr>country = ''Czech Republic'', year = 2001, life_expectancy = Fin 70, gdp_per_capita = Fin 15000\<rparr>]
        = Inr (tstat [Fin (- 2), Fin 0] (Fin 0))) \<and>
   \<not> (\<forall>tstat.
      paired_ttest_czech tstat
        [\<lparr>country = ''Czech Republic'', year = 2000, life_expectancy = Fin 70, gdp_per_capita = Fin 15000\<rparr>,
         \<lparr>country = ''Czech Republic'', year = 2000, life_expectancy = Fin 72, gdp_per_capita = Fin 15000\<rparr>,
         \<lparr>country = ''Czech Republic'', year = 2001, life_expectancy = Fin 70, gdp_per_capita = Fin 15000\<rparr>]
      = paired_ttest_czech tstat
        [\<lparr>country = ''Czech Republic'', year = 2000, life_expectancy = Fin 72, gdp_per_capita = Fin 15000\<rparr>,
         \<lparr>country = ''Czech Republic'', year = 2000, life_expectancy = Fin 70, gdp_per_capita = Fin 15000\<rparr>,
         \<lparr>country = ''Czech Republic'', year = 2001, life_expectancy = Fin 70, gdp_per_capita = Fin 15000\<rparr>])"
proof -
  let ?A = "[\<lparr>country = ''Czech Republic'', year = 2000, life_expectancy = Fin 70, gdp_per_capita = Fin 15000\<rparr>,
         \<lparr>country = ''Czech Republic'', year = 2000, life_expectancy = Fin 72, gdp_per_capita = Fin 15000\<rparr>,
         \<lparr>country = ''Czech Republic'', year = 2001, life_expectancy = Fin 70, gdp_per_capita = Fin 15000\<rparr>]"
  let ?B = "[\<lparr>country = ''Czech Republic'', year = 2000, life_expectancy = Fin 72, gdp_per_capita = Fin 15000\<rparr>,
         \<lparr>country = ''Czech Republic'', year = 2000, life_expectancy = Fin 70, gdp_per_capita = Fin 15000\<rparr>,
         \<lparr>country = ''Czech Republic'', year = 2001, life_expectancy = Fin 70, gdp_per_capita = Fin 15000\<rparr>]"
  have m: "mset ?A = mset ?B"
    by (simp add: add_mset_commute)
  have a: "paired_ttest_czech tstat ?A = Inr (tstat [Fin 2, Fin (- 2)] (Fin 0))" for tstat
    by (simp add: paired_ttest_czech_def ttest_1samp_def Let_def round_binary64_small)
  have b: "paired_ttest_czech tstat ?B = Inr (tstat [Fin (- 2), Fin 0] (Fin 0))" for tstat
    by (simp add: paired_ttest_czech_def ttest_1samp_def Let_def round_binary64_small)
  have "paired_ttest_czech (\<lambda>a m. (hd a, NaN)) ?A \<noteq> paired_ttest_czech (\<lambda>a m. (hd a, NaN)) ?B"
    unfolding a b by simp
  then have "\<not> (\<forall>tstat. paired_ttest_czech tstat ?A = paired_ttest_czech tstat ?B)"
    by blast
  with m a b show ?thesis
    by blast
qed

theorem paired_ttest_czech_permutation_witness:
  "\<forall>tstat.
     distinct (map year
       [\<lparr>country = ''Czech Republic'', year = 2002, life_expectancy = Fin 78, gdp_per_capita = Fin 16500\<rparr>,
        \<lparr>country = ''Czech Republic'', year = 2000, life_expectancy = Fin 75, gdp_per_capita = Fin 15000\<rparr>,
        \<lparr>country = ''Czech Republic'', year = 2001, life_expectancy = Fin 76, gdp_per_capita = Fin 15750\<rparr>]) \<and>
     paired_ttest_czech tstat
       [\<lparr>country = ''Czech Republic'', year = 2002, life_expectancy = Fin 78, gdp_per_capita = Fin 16500\<rparr>,
        \<lparr>country = ''Czech Republic'', year = 2000, life_expectancy = Fin 75, gdp_per_capita = Fin 15000\<rparr>,
        \<lparr>country = ''Czech Republic'', year = 2001, life_expectancy = Fin 76, gdp_per_capita = Fin 15750\<rparr>]
     = paired_ttest_czech tstat
       [\<lparr>country = ''Czech Republic'', year = 2000, life_expectancy = Fin 75, gdp_per_capita = Fin 15000\<rparr>,
        \<lparr>country = ''Czech Republic'', year = 2001, life_expectancy = Fin 76, gdp_per_capita = Fin 15750\<rparr>,
        \<lparr>country = ''Czech Republic'', year = 2002, life_expectancy = Fin 78, gdp_per_capita = Fin 16500\<rparr>] \<and>
     paired_ttest_czech tstat
       [\<lparr>country = ''Czech Republic'', year = 2002, life_expectancy = Fin 78, gdp_per_capita = Fin 16500\<rparr>,
        \<lparr>country = ''Czech Republic'', year = 2000, life_expectancy = Fin 75, gdp_per_capita = Fin 15000\<rparr>,
        \<lparr>country = ''Czech Republic'', year = 2001, life_expectancy = Fin 76, gdp_per_capita = Fin 15750\<rparr>]
     = Inr (tstat [Fin 1, Fin 2] (Fin 0))"
proof (intro allI)
  fix tstat :: "pyfloat list \<Rightarrow> pyfloat \<Rightarrow> pyfloat \<times> pyfloat"
  let ?a = "\<lparr>country = ''Czech Republic'', year = 2000, life_expectancy = Fin 75, gdp_per_capita = Fin 15000\<rparr>"
  let ?b = "\<lparr>country = ''Czech Republic'', year = 2001, life_expectancy = Fin 76, gdp_per_capita = Fin 15750\<rparr>"
  let ?c = "\<lparr>country = ''Czech Republic'', year = 2002, life_expectancy = Fin 78, gdp_per_capita = Fin 16500\<rparr>"
  have d: "distinct (map year [?c, ?a, ?b])"
    by simp
  have m: "mset [?c, ?a, ?b] = mset [?a, ?b, ?c]"
    by (simp add: add_mset_commute)
  have s: "sort_key year [?a, ?b, ?c] = [?a, ?b, ?c]"
    by (rule sort_key_id_if_sorted) simp
  have v: "paired_ttest_czech tstat [?a, ?b, ?c] = Inr (tstat [Fin 1, Fin 2] (Fin 0))"
    unfolding paired_ttest_czech_def Let_def s by (simp add: ttest_1samp_def round_binary64_small)
  from paired_ttest_czech_permutation [OF d m, of tstat] v d
  show "distinct (map year [?c, ?a, ?b]) \<and>
     paired_ttest_czech tstat [?c, ?a, ?b] = paired_ttest_czech tstat [?a, ?b, ?c] \<and>
     paired_ttest_czech tstat [?c, ?a, ?b] = Inr (tstat [Fin 1, Fin 2] (Fin 0))"
    by simp
qed

end
